theory Spec2Isabelle
  imports Complex_Main "HOL-Library.Word"
begin

unbundle bit_operations_syntax

section \<open>The Hex Canary worker (\<^verbatim>\<open>runtime/canary/hex_canary_worker.py\<close>)\<close>

text \<open>
  The worker is a Python process that talks to its host over stdin and stdout with frames
  of a 4-byte big-endian length followed by that many bytes of JSON. This theory embeds
  \<^verbatim>\<open>CanaryRuntime\<close>, \<^verbatim>\<open>read_message\<close>, \<^verbatim>\<open>write_message\<close> and \<^verbatim>\<open>main\<close>.

  Every exception the code can raise is a value: a function that can raise returns
  \<open>exn + 'a\<close>. The standard input is the list of bytes the host delivers before it closes
  the pipe, the standard output the list of bytes written so far. What the script imports
  and does not define (the JSON parser, PyTorch, NeMo, the file system) is the record
  \<open>env\<close> of the functions it calls there.
\<close>

subsection \<open>Python values and exceptions\<close>

type_synonym byte = "8 word"

text \<open>
  The exception classes the script raises or meets; all of them derive from
  \<^verbatim>\<open>Exception\<close>. The string is what \<^verbatim>\<open>str(exc)\<close> returns.
\<close>

datatype exn_class =
  EOFError | RuntimeError | OverflowError | ValueError | KeyError | IndexError
  | AttributeError | TypeError | JSONDecodeError | OSError | OtherException string

datatype exn = Exn exn_class string

fun str_exn :: "exn \<Rightarrow> string" where
  "str_exn (Exn c msg) = msg"

fun is_EOFError :: "exn \<Rightarrow> bool" where
  "is_EOFError (Exn c msg) = (c = EOFError)"

text \<open>
  The values \<^verbatim>\<open>json.loads\<close> returns and \<^verbatim>\<open>json.dumps\<close> accepts. A dict keeps its
  insertion order, so it is an association list. A float is carried by the text
  \<^verbatim>\<open>float.__repr__\<close> gives for it; the worker never computes with one.
\<close>

datatype json =
  JNull | JBool bool | JInt int | JFloat string | JStr string
  | JArr "json list" | JObj "(string \<times> json) list"

subsection \<open>\<^verbatim>\<open>json.dumps\<close> with its default options\<close>

definition hex_digit :: "nat \<Rightarrow> char" where
  "hex_digit n = (if n < 10 then char_of (48 + n) else char_of (87 + n))"

text \<open>
  \<^verbatim>\<open>ensure_ascii\<close> is on: the quote, the backslash and every character outside
  \<^verbatim>\<open>' '..'~'\<close> are escaped.
\<close>

definition escape_char :: "char \<Rightarrow> string" where
  "escape_char c =
     (if c = CHR 0x5C then [CHR 0x5C, CHR 0x5C]
      else if c = CHR 0x22 then [CHR 0x5C, CHR 0x22]
      else if c = CHR 0x08 then [CHR 0x5C, CHR ''b'']
      else if c = CHR 0x0C then [CHR 0x5C, CHR ''f'']
      else if c = CHR 0x0A then [CHR 0x5C, CHR ''n'']
      else if c = CHR 0x0D then [CHR 0x5C, CHR ''r'']
      else if c = CHR 0x09 then [CHR 0x5C, CHR ''t'']
      else if 32 \<le> (of_char c :: nat) \<and> (of_char c :: nat) \<le> 126 then [c]
      else [CHR 0x5C, CHR ''u'', CHR ''0'', CHR ''0'',
            hex_digit ((of_char c :: nat) div 16), hex_digit ((of_char c :: nat) mod 16)])"

definition encode_basestring_ascii :: "string \<Rightarrow> string" where
  "encode_basestring_ascii s = [CHR 0x22] @ concat (map escape_char s) @ [CHR 0x22]"

fun digits10 :: "nat \<Rightarrow> string" where
  "digits10 n = (if n < 10 then [char_of (48 + n)]
                 else digits10 (n div 10) @ [char_of (48 + n mod 10)])"

definition str_int :: "int \<Rightarrow> string" where
  "str_int i = (if i < 0 then CHR ''-'' # digits10 (nat (- i)) else digits10 (nat i))"

definition floatstr :: "string \<Rightarrow> string" where
  "floatstr r = (if r = ''nan'' then ''NaN''
                 else if r = ''inf'' then ''Infinity''
                 else if r = ''-inf'' then ''-Infinity''
                 else r)"

fun join :: "string \<Rightarrow> string list \<Rightarrow> string" where
  "join sep [] = []"
| "join sep [x] = x"
| "join sep (x # y # ys) = x @ sep @ join sep (y # ys)"

fun json_dumps :: "json \<Rightarrow> string" where
  "json_dumps JNull = ''null''"
| "json_dumps (JBool b) = (if b then ''true'' else ''false'')"
| "json_dumps (JInt i) = str_int i"
| "json_dumps (JFloat r) = floatstr r"
| "json_dumps (JStr s) = encode_basestring_ascii s"
| "json_dumps (JArr xs) = ''['' @ join '', '' (map json_dumps xs) @ '']''"
| "json_dumps (JObj kvs) =
     ''{'' @ join '', '' (map (\<lambda>kv. encode_basestring_ascii (fst kv) @ '': '' @ json_dumps (snd kv)) kvs)
     @ ''}''"

text \<open>\<^verbatim>\<open>str.encode("utf-8")\<close>, for the code points a \<open>char\<close> has (below 256).\<close>

definition utf8_char :: "char \<Rightarrow> byte list" where
  "utf8_char c =
     (let n = (of_char c :: nat)
      in if n < 128 then [of_nat n] else [of_nat (192 + n div 64), of_nat (128 + n mod 64)])"

definition utf8_encode :: "string \<Rightarrow> byte list" where
  "utf8_encode s = concat (map utf8_char s)"

subsection \<open>\<^verbatim>\<open>int.to_bytes\<close> and \<^verbatim>\<open>int.from_bytes\<close>, big-endian\<close>

fun be_bytes :: "nat \<Rightarrow> nat \<Rightarrow> byte list" where
  "be_bytes 0 n = []"
| "be_bytes (Suc k) n = be_bytes k (n div 256) @ [of_nat (n mod 256)]"

definition to_bytes_big :: "nat \<Rightarrow> nat \<Rightarrow> exn + byte list" where
  "to_bytes_big k n =
     (if n < 256 ^ k then Inr (be_bytes k n)
      else Inl (Exn OverflowError ''int too big to convert''))"

definition from_bytes_big :: "byte list \<Rightarrow> nat" where
  "from_bytes_big bs = foldl (\<lambda>acc b. acc * 256 + unat b) 0 bs"

subsection \<open>The process and what it calls\<close>

record world =
  stdin :: "byte list"
  stdout :: "byte list"

text \<open>
  What \<^verbatim>\<open>model.generate\<close> returns: a list of dicts, or anything else, of which the worker
  only takes \<^verbatim>\<open>str(output)\<close>.
\<close>

datatype gen_output = GenList "(string \<times> json) list list" | GenOther string

text \<open>
  The imported functions, with \<open>'m\<close> the type of a restored \<^verbatim>\<open>SALMModel\<close>:
  \<^item> \<open>json_loads\<close> is \<^verbatim>\<open>json.loads\<close> on the payload bytes;
  \<^item> \<open>py_repr\<close> is \<^verbatim>\<open>str\<close> of a list or dict;
  \<^item> \<open>path_type_error\<close> is the text of the \<^verbatim>\<open>TypeError\<close> of \<^verbatim>\<open>Path(x)\<close> for \<^verbatim>\<open>x\<close> not a string;
  \<^item> \<open>mps_is_available\<close> is \<^verbatim>\<open>torch.backends.mps.is_available()\<close>;
  \<^item> \<open>restore_from\<close> is \<^verbatim>\<open>SALMModel.restore_from(ckpt, map_location=device)\<close>;
  \<^item> \<open>freeze\<close> is \<^verbatim>\<open>model.freeze()\<close>, which changes the model in place and may raise;
  \<^item> \<open>read_bytes\<close> is \<^verbatim>\<open>Path.read_bytes\<close>;
  \<^item> \<open>generate\<close> is the tensor construction and \<^verbatim>\<open>model.generate\<close> under
    \<^verbatim>\<open>torch.inference_mode()\<close>, given the samples and their number.
\<close>

record 'm env =
  json_loads :: "byte list \<Rightarrow> exn + json"
  py_repr :: "json \<Rightarrow> string"
  path_type_error :: "json \<Rightarrow> string"
  mps_is_available :: bool
  restore_from :: "string \<Rightarrow> string \<Rightarrow> exn + 'm"
  freeze :: "'m \<Rightarrow> exn option \<times> 'm"
  read_bytes :: "string \<Rightarrow> exn + byte list"
  generate :: "'m \<Rightarrow> real list \<Rightarrow> nat \<Rightarrow> exn + gen_output"

subsection \<open>\<^verbatim>\<open>RuntimeConfig\<close> and \<^verbatim>\<open>CanaryRuntime\<close>\<close>

record RuntimeConfig =
  model_path :: string
  device :: string

record 'm CanaryRuntime =
  config :: RuntimeConfig
  model :: "'m option"

definition CanaryRuntime_init :: "'m env \<Rightarrow> RuntimeConfig \<Rightarrow> exn + 'm CanaryRuntime" where
  "CanaryRuntime_init env cfg =
     (if device cfg \<noteq> ''mps''
      then Inl (Exn RuntimeError ''This build only supports the MPS backend'')
      else if \<not> mps_is_available env
      then Inl (Exn RuntimeError ''MPS backend not available'')
      else Inr \<lparr>config = cfg, model = None\<rparr>)"

text \<open>
  \<^verbatim>\<open>load\<close> returns the exception it raised, if any, and the runtime as it is left:
  \<^verbatim>\<open>self._model\<close> is assigned before \<^verbatim>\<open>freeze\<close> runs.
\<close>

definition load :: "'m env \<Rightarrow> 'm CanaryRuntime \<Rightarrow> exn option \<times> 'm CanaryRuntime" where
  "load env rt =
     (case model rt of
        Some m \<Rightarrow> (None, rt)
      | None \<Rightarrow>
          (case restore_from env (model_path (config rt)) (device (config rt)) of
             Inl e \<Rightarrow> (Some e, rt)
           | Inr m \<Rightarrow>
               (case freeze env m of (r, m') \<Rightarrow> (r, rt\<lparr>model := Some m'\<rparr>))))"

text \<open>
  \<^verbatim>\<open>np.frombuffer(buf, dtype=np.int16)\<close>: two bytes a sample, in the byte order of the
  machine, which is low byte first on the hosts that have the MPS backend; a buffer of odd
  size is refused.
\<close>

fun int16_samples :: "byte list \<Rightarrow> 16 word list" where
  "int16_samples (lo # hi # bs) = (ucast lo OR push_bit 8 (ucast hi)) # int16_samples bs"
| "int16_samples bs = []"

definition frombuffer_int16 :: "byte list \<Rightarrow> exn + 16 word list" where
  "frombuffer_int16 buf =
     (if length buf mod 2 \<noteq> 0
      then Inl (Exn ValueError ''buffer size must be a multiple of element size'')
      else Inr (int16_samples buf))"

text \<open>
  \<^verbatim>\<open>.astype(np.float32) / 32768.0\<close>. Every 16-bit integer is a float32, and dividing a
  float32 of that size by \<open>2 ^ 15\<close> only lowers its exponent, so both steps are exact and
  the float32 result is the real number below.
\<close>

definition normalize :: "16 word \<Rightarrow> real" where
  "normalize s = real_of_int (sint s) / 32768"

definition extract_text :: "gen_output \<Rightarrow> exn + json" where
  "extract_text output =
     (case output of
        GenList items \<Rightarrow>
          (case items of
             [] \<Rightarrow> Inl (Exn IndexError ''list index out of range'')
           | d # _ \<Rightarrow>
               (case map_of d ''text'' of
                  None \<Rightarrow> Inl (Exn KeyError [CHR 0x27, CHR ''t'', CHR ''e'', CHR ''x'', CHR ''t'', CHR 0x27])
                | Some t \<Rightarrow> Inr t))
      | GenOther s \<Rightarrow> Inr (JStr s))"

text \<open>\<^verbatim>\<open>CanaryRuntime.transcribe\<close>; the result is the value of its \<^verbatim>\<open>"text"\<close> entry.\<close>

definition transcribe :: "'m env \<Rightarrow> 'm CanaryRuntime \<Rightarrow> string \<Rightarrow> exn + json" where
  "transcribe env rt wav_path =
     (case model rt of
        None \<Rightarrow> Inl (Exn RuntimeError ''Model not loaded'')
      | Some m \<Rightarrow>
          (case read_bytes env wav_path of
             Inl e \<Rightarrow> Inl e
           | Inr buf \<Rightarrow>
               (case frombuffer_int16 buf of
                  Inl e \<Rightarrow> Inl e
                | Inr samples \<Rightarrow>
                    (let audio = map normalize samples
                     in case generate env m audio (length audio) of
                          Inl e \<Rightarrow> Inl e
                        | Inr output \<Rightarrow> extract_text output))))"

subsection \<open>\<^verbatim>\<open>read_message\<close> and \<^verbatim>\<open>write_message\<close>\<close>

text \<open>
  \<^verbatim>\<open>sys.stdin.buffer.read(n)\<close> blocks until it has \<open>n\<close> bytes or the stream is closed, so it
  returns the first \<open>n\<close> bytes of what is left, or all of it.
\<close>

definition read_message :: "'m env \<Rightarrow> world \<Rightarrow> (exn + json) \<times> world" where
  "read_message env w =
     (let header = take 4 (stdin w);
          w1 = w\<lparr>stdin := drop 4 (stdin w)\<rparr>
      in if length header < 4 then (Inl (Exn EOFError []), w1)
         else
           (let len = from_bytes_big header;
                payload = take len (stdin w1);
                w2 = w1\<lparr>stdin := drop len (stdin w1)\<rparr>
            in if length payload \<noteq> len then (Inl (Exn EOFError []), w2)
               else (json_loads env payload, w2)))"

text \<open>\<^verbatim>\<open>json.dumps(message).encode("utf-8")\<close>.\<close>

definition encoded :: "json \<Rightarrow> byte list" where
  "encoded message = utf8_encode (json_dumps message)"

text \<open>
  The header and the payload are two writes to the buffered stdout, flushed together; the
  header is computed first, and nothing is written when that raises.
\<close>

definition write_message :: "json \<Rightarrow> world \<Rightarrow> exn + world" where
  "write_message message w =
     (case to_bytes_big 4 (length (encoded message)) of
        Inl e \<Rightarrow> Inl e
      | Inr header \<Rightarrow> Inr (w\<lparr>stdout := stdout w @ header @ encoded message\<rparr>))"

text \<open>The bytes of one frame on the wire, for a payload shorter than \<open>2 ^ 32\<close> bytes.\<close>

definition frame :: "byte list \<Rightarrow> byte list" where
  "frame payload = be_bytes 4 (length payload) @ payload"

subsection \<open>\<^verbatim>\<open>main\<close>\<close>

definition ready_message :: json where
  "ready_message = JObj [(''type'', JStr ''ready'')]"

definition fatal_message :: "string \<Rightarrow> json" where
  "fatal_message e = JObj [(''type'', JStr ''fatal''), (''error'', JStr e)]"

definition shutdown_message :: json where
  "shutdown_message = JObj [(''type'', JStr ''shutdown'')]"

definition result_message :: "json \<Rightarrow> json" where
  "result_message t = JObj [(''type'', JStr ''result''), (''text'', t)]"

definition error_message :: "string \<Rightarrow> json" where
  "error_message e = JObj [(''type'', JStr ''error''), (''error'', JStr e)]"

fun py_type_name :: "json \<Rightarrow> string" where
  "py_type_name JNull = ''NoneType''"
| "py_type_name (JBool b) = ''bool''"
| "py_type_name (JInt i) = ''int''"
| "py_type_name (JFloat r) = ''float''"
| "py_type_name (JStr s) = ''str''"
| "py_type_name (JArr xs) = ''list''"
| "py_type_name (JObj kvs) = ''dict''"

text \<open>\<^verbatim>\<open>message.get(key)\<close>: only a dict has the method.\<close>

fun py_get :: "json \<Rightarrow> string \<Rightarrow> exn + json" where
  "py_get (JObj kvs) key = Inr (case map_of kvs key of None \<Rightarrow> JNull | Some v \<Rightarrow> v)"
| "py_get v key =
     Inl (Exn AttributeError
       ([CHR 0x27] @ py_type_name v @ [CHR 0x27] @ '' object has no attribute ''
        @ [CHR 0x27] @ ''get'' @ [CHR 0x27]))"

text \<open>\<^verbatim>\<open>message["path"]\<close>, on the dict that \<^verbatim>\<open>message\<close> is once \<^verbatim>\<open>get\<close> has returned.\<close>

fun py_getitem :: "json \<Rightarrow> string \<Rightarrow> exn + json" where
  "py_getitem (JObj kvs) key =
     (case map_of kvs key of
        None \<Rightarrow> Inl (Exn KeyError ([CHR 0x27] @ key @ [CHR 0x27]))
      | Some v \<Rightarrow> Inr v)"
| "py_getitem v key =
     Inl (Exn TypeError ([CHR 0x27] @ py_type_name v @ [CHR 0x27] @ '' object is not subscriptable''))"

text \<open>\<^verbatim>\<open>Path(x)\<close>.\<close>

fun Path :: "'m env \<Rightarrow> json \<Rightarrow> exn + string" where
  "Path env (JStr s) = Inr s"
| "Path env v = Inl (Exn TypeError (path_type_error env v))"

text \<open>How the f-string renders \<^verbatim>\<open>{command}\<close>.\<close>

fun py_str :: "'m env \<Rightarrow> json \<Rightarrow> string" where
  "py_str env JNull = ''None''"
| "py_str env (JBool b) = (if b then ''True'' else ''False'')"
| "py_str env (JInt i) = str_int i"
| "py_str env (JFloat r) = r"
| "py_str env (JStr s) = s"
| "py_str env v = py_repr env v"

text \<open>
  The body of the \<^verbatim>\<open>try\<close> of the transcribe branch, and the branch with its
  \<^verbatim>\<open>except Exception\<close>. The handler writes too, and nothing catches what it raises.
\<close>

definition transcribe_body :: "'m env \<Rightarrow> 'm CanaryRuntime \<Rightarrow> json \<Rightarrow> world \<Rightarrow> exn + world" where
  "transcribe_body env rt message w =
     (case py_getitem message ''path'' of
        Inl e \<Rightarrow> Inl e
      | Inr p \<Rightarrow>
          (case Path env p of
             Inl e \<Rightarrow> Inl e
           | Inr wav_path \<Rightarrow>
               (case transcribe env rt wav_path of
                  Inl e \<Rightarrow> Inl e
                | Inr text \<Rightarrow> write_message (result_message text) w)))"

definition handle_transcribe :: "'m env \<Rightarrow> 'm CanaryRuntime \<Rightarrow> json \<Rightarrow> world \<Rightarrow> exn + world" where
  "handle_transcribe env rt message w =
     (case transcribe_body env rt message w of
        Inl exc \<Rightarrow> write_message (error_message (str_exn exc)) w
      | Inr w' \<Rightarrow> Inr w')"

text \<open>
  How the process ends: \<^verbatim>\<open>main\<close> returns a status, or an exception leaves it. What one
  pass of the \<^verbatim>\<open>while True\<close> loop does: it ends the loop, or the loop goes on.
\<close>

datatype outcome = Exit int | Uncaught exn

datatype step = Done outcome | Continue

definition loop_body :: "'m env \<Rightarrow> 'm CanaryRuntime \<Rightarrow> world \<Rightarrow> step \<times> world" where
  "loop_body env rt w =
     (case read_message env w of
        (Inl e, w1) \<Rightarrow> if is_EOFError e then (Done (Exit 0), w1) else (Done (Uncaught e), w1)
      | (Inr message, w1) \<Rightarrow>
          (case py_get message ''command'' of
             Inl e \<Rightarrow> (Done (Uncaught e), w1)
           | Inr command \<Rightarrow>
               if command = JStr ''shutdown'' then
                 (case write_message shutdown_message w1 of
                    Inl e \<Rightarrow> (Done (Uncaught e), w1)
                  | Inr w2 \<Rightarrow> (Done (Exit 0), w2))
               else if command = JStr ''transcribe'' then
                 (case handle_transcribe env rt message w1 of
                    Inl e \<Rightarrow> (Done (Uncaught e), w1)
                  | Inr w2 \<Rightarrow> (Continue, w2))
               else
                 (case write_message (error_message (''Unknown command '' @ py_str env command)) w1 of
                    Inl e \<Rightarrow> (Done (Uncaught e), w1)
                  | Inr w2 \<Rightarrow> (Continue, w2))))"

function main_loop :: "'m env \<Rightarrow> 'm CanaryRuntime \<Rightarrow> world \<Rightarrow> outcome \<times> world" where
  "main_loop env rt w =
     (case loop_body env rt w of
        (Done r, w') \<Rightarrow> (r, w')
      | (Continue, w') \<Rightarrow> main_loop env rt w')"
  by pat_completeness auto
termination
proof (relation "measure (\<lambda>(env, rt, w). length (stdin w))", goal_cases)
  case 1
  show ?case by simp
next
  case (2 env rt w x w')
  then have step: "loop_body env rt w = (Continue, w')"
    by simp
  have wm: "stdin v' = stdin v" if "write_message m v = Inr v'" for m and v v' :: world
    using that by (cases "to_bytes_big 4 (length (encoded m))") (auto simp: write_message_def)
  have ht: "stdin v' = stdin v" if "handle_transcribe env rt m v = Inr v'" for m and v v' :: world
  proof (cases "transcribe_body env rt m v")
    case (Inl exc)
    with that show ?thesis by (simp add: handle_transcribe_def wm)
  next
    case (Inr v2)
    with that have "v2 = v'" and "transcribe_body env rt m v = Inr v'"
      by (simp_all add: handle_transcribe_def)
    then show ?thesis
      by (auto simp: transcribe_body_def wm split: sum.splits)
  qed
  obtain r w1 where rd: "read_message env w = (r, w1)"
    by (cases "read_message env w")
  from step rd obtain message where msg: "r = Inr message"
    by (cases r) (auto simp: loop_body_def split: if_splits)
  from rd msg have "length (stdin w1) < length (stdin w)"
    by (auto simp: read_message_def Let_def split: if_splits)
  moreover from step rd msg have "stdin w' = stdin w1"
    by (auto simp: loop_body_def split: sum.splits if_splits dest: wm ht)
  ultimately show ?case
    by simp
qed

text \<open>
  \<^verbatim>\<open>main\<close> after \<^verbatim>\<open>parse_args\<close>, which gives it \<^verbatim>\<open>args.model\<close> and \<^verbatim>\<open>args.device\<close>. The
  runtime is built before the \<^verbatim>\<open>try\<close>; \<^verbatim>\<open>load\<close> and the ready message are inside it.
\<close>

definition main :: "'m env \<Rightarrow> RuntimeConfig \<Rightarrow> world \<Rightarrow> outcome \<times> world" where
  "main env args w =
     (case CanaryRuntime_init env args of
        Inl e \<Rightarrow> (Uncaught e, w)
      | Inr runtime \<Rightarrow>
          (case load env runtime of
             (r, runtime') \<Rightarrow>
               (case (case r of Some e \<Rightarrow> Inl e | None \<Rightarrow> write_message ready_message w) of
                  Inl exc \<Rightarrow>
                    (case write_message (fatal_message (str_exn exc)) w of
                       Inl e \<Rightarrow> (Uncaught e, w)
                     | Inr w' \<Rightarrow> (Exit 1, w'))
                | Inr w' \<Rightarrow> main_loop env runtime' w')))"

text \<open>
  The status the host sees: \<^verbatim>\<open>sys.exit(main(...))\<close>, and 1 when the interpreter ends on
  an exception nothing caught.
\<close>

fun exit_status :: "outcome \<Rightarrow> int" where
  "exit_status (Exit n) = n"
| "exit_status (Uncaught e) = 1"

subsection \<open>A pipe, and an environment to run the worker in\<close>


text \<open>
  A stand-in for what the script imports, to run the definitions on concrete inputs: a JSON
  parser that knows the encodings of the listed values and rejects every other payload, a
  file system with the listed files, a backend that is available, and a model that
  transcribes everything to the given text.
\<close>

definition loads_of :: "json list \<Rightarrow> byte list \<Rightarrow> exn + json" where
  "loads_of known payload =
     (case find (\<lambda>v. encoded v = payload) known of
        Some v \<Rightarrow> Inr v
      | None \<Rightarrow> Inl (Exn JSONDecodeError ''Expecting value''))"

definition no_such_file :: "string \<Rightarrow> exn" where
  "no_such_file p = Exn OSError (''[Errno 2] No such file or directory: '' @ [CHR 0x27] @ p @ [CHR 0x27])"

definition files_of :: "(string \<times> byte list) list \<Rightarrow> string \<Rightarrow> exn + byte list" where
  "files_of files p = (case map_of files p of Some buf \<Rightarrow> Inr buf | None \<Rightarrow> Inl (no_such_file p))"

definition example_env :: "json list \<Rightarrow> (string \<times> byte list) list \<Rightarrow> string \<Rightarrow> unit env" where
  "example_env known files text =
     \<lparr>json_loads = loads_of known,
      py_repr = json_dumps,
      path_type_error = (\<lambda>v. ''expected str, bytes or os.PathLike object, not '' @ py_type_name v),
      mps_is_available = True,
      restore_from = (\<lambda>ckpt dev. Inr ()),
      freeze = (\<lambda>m. (None, m)),
      read_bytes = files_of files,
      generate = (\<lambda>m audio n. Inr (GenList [[(''text'', JStr text)]]))\<rparr>"

text \<open>The request \<^verbatim>\<open>{"command": "transcribe", "path": p}\<close>.\<close>

definition transcribe_request :: "string \<Rightarrow> json" where
  "transcribe_request p = JObj [(''command'', JStr ''transcribe''), (''path'', JStr p)]"

definition example_runtime :: "unit CanaryRuntime" where
  "example_runtime = \<lparr>config = \<lparr>model_path = ''/model.nemo'', device = ''mps''\<rparr>, model = Some ()\<rparr>"

section \<open>Properties\<close>

subsection \<open>Framing and the loop\<close>

declare main_loop.simps [simp del]

lemma length_be_bytes: "length (be_bytes k n) = k"
  by (induction k arbitrary: n) auto

lemma from_bytes_big_snoc: "from_bytes_big (bs @ [b]) = from_bytes_big bs * 256 + unat b"
  by (simp add: from_bytes_big_def)

lemma from_bytes_be_bytes: "n < 256 ^ k \<Longrightarrow> from_bytes_big (be_bytes k n) = n"
proof (induction k arbitrary: n)
  case 0
  then show ?case by (simp add: from_bytes_big_def)
next
  case (Suc k)
  have "n div 256 < 256 ^ k"
    using Suc.prems by (simp add: less_mult_imp_div_less mult.commute)
  then have "from_bytes_big (be_bytes k (n div 256)) = n div 256"
    by (rule Suc.IH)
  moreover have "unat (of_nat (n mod 256) :: byte) = n mod 256"
    by (simp add: unat_of_nat)
  ultimately show ?case
    by (simp add: from_bytes_big_snoc)
qed

lemma to_bytes_big_4: "n < 2 ^ 32 \<Longrightarrow> to_bytes_big 4 n = Inr (be_bytes 4 n)"
  by (simp add: to_bytes_big_def)

lemma to_bytes_big_4_overflow:
  "2 ^ 32 \<le> n \<Longrightarrow> to_bytes_big 4 n = Inl (Exn OverflowError ''int too big to convert'')"
  by (simp add: to_bytes_big_def)

lemma read_message_frame:
  assumes "stdin w = header @ payload @ rest" and "length header = 4"
    and "from_bytes_big header = length payload"
  shows "read_message env w = (json_loads env payload, w\<lparr>stdin := rest\<rparr>)"
  using assms by (simp add: read_message_def Let_def)

lemma read_message_truncated:
  assumes "length (stdin w) < 4 \<or> length (stdin w) - 4 < from_bytes_big (take 4 (stdin w))"
  shows "fst (read_message env w) = Inl (Exn EOFError [])"
  using assms by (auto simp: read_message_def Let_def)

lemma write_message_frame:
  "length (encoded message) < 2 ^ 32 \<Longrightarrow>
   write_message message w = Inr (w\<lparr>stdout := stdout w @ frame (encoded message)\<rparr>)"
  by (simp add: write_message_def frame_def to_bytes_big_4)

lemma write_message_overflow:
  "2 ^ 32 \<le> length (encoded message) \<Longrightarrow>
   write_message message w = Inl (Exn OverflowError ''int too big to convert'')"
  by (simp add: write_message_def to_bytes_big_4_overflow)

lemma read_frame:
  "length payload < 2 ^ 32 \<Longrightarrow>
   read_message env (w\<lparr>stdin := frame payload @ rest\<rparr>) = (json_loads env payload, w\<lparr>stdin := rest\<rparr>)"
  by (simp add: read_message_frame [where header = "be_bytes 4 (length payload)" and payload = payload and rest = rest]
        frame_def length_be_bytes from_bytes_be_bytes)

lemma main_loop_Done: "loop_body env rt w = (Done r, w') \<Longrightarrow> main_loop env rt w = (r, w')"
  by (subst main_loop.simps) simp

lemma main_loop_Continue:
  "loop_body env rt w = (Continue, w') \<Longrightarrow> main_loop env rt w = main_loop env rt w'"
  by (subst main_loop.simps) simp

lemma read_message_stdout: "stdout (snd (read_message env w)) = stdout w"
  by (simp add: read_message_def Let_def)

lemma loop_body_truncated:
  assumes "length (stdin w) < 4 \<or> length (stdin w) - 4 < from_bytes_big (take 4 (stdin w))"
  shows "loop_body env rt w = (Done (Exit 0), snd (read_message env w))"
proof -
  obtain r w1 where rd: "read_message env w = (r, w1)"
    by (cases "read_message env w")
  with read_message_truncated [OF assms, of env] have "r = Inl (Exn EOFError [])"
    by simp
  with rd show ?thesis
    by (simp add: loop_body_def)
qed

lemma main_unsupported_device:
  "device args \<noteq> ''mps'' \<Longrightarrow>
   main env args w = (Uncaught (Exn RuntimeError ''This build only supports the MPS backend''), w)"
  by (simp add: main_def CanaryRuntime_init_def)

lemma normalize_range: "- 1 \<le> normalize s \<and> normalize s < 1"
proof -
  have "- (2 ^ 15) \<le> sint s" "sint s < 2 ^ 15"
    using sint_ge [of s] sint_lt [of s] by simp_all
  then have "real_of_int (- (2 ^ 15)) \<le> real_of_int (sint s)" "real_of_int (sint s) < real_of_int (2 ^ 15)"
    by (simp_all only: of_int_le_iff of_int_less_iff)
  then show ?thesis
    by (simp add: normalize_def)
qed

lemma loop_body_read:
  assumes "length payload < 2 ^ 32"
  shows "loop_body env rt (w\<lparr>stdin := frame payload @ rest\<rparr>) =
     (case json_loads env payload of
        Inl e \<Rightarrow> if is_EOFError e then (Done (Exit 0), w\<lparr>stdin := rest\<rparr>)
                 else (Done (Uncaught e), w\<lparr>stdin := rest\<rparr>)
      | Inr message \<Rightarrow>
          (case py_get message ''command'' of
             Inl e \<Rightarrow> (Done (Uncaught e), w\<lparr>stdin := rest\<rparr>)
           | Inr command \<Rightarrow>
               if command = JStr ''shutdown'' then
                 (case write_message shutdown_message (w\<lparr>stdin := rest\<rparr>) of
                    Inl e \<Rightarrow> (Done (Uncaught e), w\<lparr>stdin := rest\<rparr>)
                  | Inr w2 \<Rightarrow> (Done (Exit 0), w2))
               else if command = JStr ''transcribe'' then
                 (case handle_transcribe env rt message (w\<lparr>stdin := rest\<rparr>) of
                    Inl e \<Rightarrow> (Done (Uncaught e), w\<lparr>stdin := rest\<rparr>)
                  | Inr w2 \<Rightarrow> (Continue, w2))
               else
                 (case write_message (error_message (''Unknown command '' @ py_str env command))
                         (w\<lparr>stdin := rest\<rparr>) of
                    Inl e \<Rightarrow> (Done (Uncaught e), w\<lparr>stdin := rest\<rparr>)
                  | Inr w2 \<Rightarrow> (Continue, w2))))"
  unfolding loop_body_def read_frame [OF assms] by (simp split: sum.splits)

lemma be_bytes_4:
  "be_bytes 4 n =
     [of_nat (n div 256 div 256 div 256 mod 256), of_nat (n div 256 div 256 mod 256),
      of_nat (n div 256 mod 256), of_nat (n mod 256)]"
proof -
  have "(4 :: nat) = Suc (Suc (Suc (Suc 0)))"
    by simp
  then show ?thesis
    by (simp only: be_bytes.simps append_Nil append_Cons)
qed

lemma frame_single_brace: "frame [123] = [0, 0, 0, 1, 123]"
  by (simp add: frame_def be_bytes_4)

lemma length_encoded_unknown_None: "length (encoded (error_message ''Unknown command None'')) = 50"
  by (simp add: encoded_def error_message_def encode_basestring_ascii_def escape_char_def
        utf8_encode_def utf8_char_def)

lemma main_loop_eof: "stdin w = [] \<Longrightarrow> main_loop env rt w = (Exit 0, w)"
proof -
  assume e: "stdin w = []"
  then have "read_message env w = (Inl (Exn EOFError []), w)"
    by (simp add: read_message_def)
  then have "loop_body env rt w = (Done (Exit 0), w)"
    by (simp add: loop_body_def)
  then show ?thesis
    by (rule main_loop_Done)
qed

lemmas eval_encoded =
  encoded_def encode_basestring_ascii_def escape_char_def utf8_encode_def utf8_char_def

lemma concat_replicate_single: "concat (replicate n [x]) = replicate n x"
  by (induction n) simp_all

lemma escape_replicate_a: "concat (map escape_char (replicate n CHR ''a'')) = replicate n CHR ''a''"
  by (simp add: escape_char_def concat_replicate_single)

lemma utf8_encode_append: "utf8_encode (xs @ ys) = utf8_encode xs @ utf8_encode ys"
  by (simp add: utf8_encode_def)

lemma utf8_encode_replicate_a: "utf8_encode (replicate n CHR ''a'') = replicate n 97"
  by (simp add: utf8_encode_def utf8_char_def concat_replicate_single)

lemma length_encoded_long_command:
  "length (encoded (JObj [(''command'', JStr (replicate n CHR ''a''))])) = n + 15"
  by (simp add: encoded_def encode_basestring_ascii_def escape_replicate_a utf8_encode_append
        utf8_encode_replicate_a)
     (simp add: utf8_encode_def utf8_char_def escape_char_def)

lemma length_encoded_long_unknown:
  "length (encoded (error_message (''Unknown command '' @ replicate n CHR ''a''))) = n + 46"
  by (simp add: encoded_def error_message_def encode_basestring_ascii_def escape_replicate_a
        utf8_encode_append utf8_encode_replicate_a)
     (simp add: utf8_encode_def utf8_char_def escape_char_def)


lemma transcribe_failures:
  assumes "model rt = Some m"
  shows "read_bytes env p = Inl e \<Longrightarrow> transcribe env rt p = Inl e"
    and "read_bytes env p = Inr buf \<Longrightarrow> odd (length buf) \<Longrightarrow>
         transcribe env rt p = Inl (Exn ValueError ''buffer size must be a multiple of element size'')"
    and "read_bytes env p = Inr buf \<Longrightarrow> even (length buf) \<Longrightarrow>
         generate env m (map normalize (int16_samples buf)) (length (int16_samples buf)) = Inl e \<Longrightarrow>
         transcribe env rt p = Inl e"
  using assms by (simp_all add: transcribe_def frombuffer_int16_def odd_iff_mod_2_eq_one)

lemma transcribe_body_raises:
  "py_getitem message ''path'' = Inr (JStr p) \<Longrightarrow> transcribe env rt p = Inl e \<Longrightarrow>
   transcribe_body env rt message w = Inl e"
  by (simp add: transcribe_body_def)

lemma transcribe_request_served:
  assumes "length payload < 2 ^ 32" and "json_loads env payload = Inr message"
    and "py_get message ''command'' = Inr (JStr ''transcribe'')"
    and "transcribe_body env rt message (w\<lparr>stdin := rest\<rparr>) = Inr w2"
  shows "main_loop env rt (w\<lparr>stdin := frame payload @ rest\<rparr>) = main_loop env rt w2"
proof -
  have "handle_transcribe env rt message (w\<lparr>stdin := rest\<rparr>) = Inr w2"
    by (simp add: handle_transcribe_def assms(4))
  then have "loop_body env rt (w\<lparr>stdin := frame payload @ rest\<rparr>) = (Continue, w2)"
    by (simp add: loop_body_read [OF assms(1)] assms(2) assms(3))
  then show ?thesis
    by (rule main_loop_Continue)
qed

lemma length_encoded_long_path:
  "length (encoded (transcribe_request (replicate n CHR ''a''))) = n + 37"
  by (simp add: encoded_def transcribe_request_def encode_basestring_ascii_def escape_replicate_a
        utf8_encode_append utf8_encode_replicate_a)
     (simp add: utf8_encode_def utf8_char_def escape_char_def)

lemma length_encoded_long_error:
  "length (encoded (error_message (str_exn (no_such_file (replicate n CHR ''a''))))) = n + 69"
  by (simp add: encoded_def error_message_def no_such_file_def encode_basestring_ascii_def
        escape_replicate_a utf8_encode_append utf8_encode_replicate_a)
     (simp add: utf8_encode_def utf8_char_def escape_char_def)

subsection \<open>Malformed payloads\<close>

text \<open>
  Claim C1 says that a payload that is not well-formed JSON is answered with an error
  message and the loop goes on. The loop catches \<^verbatim>\<open>EOFError\<close> only: when \<^verbatim>\<open>json.loads\<close>
  raises on a complete frame, the exception leaves \<^verbatim>\<open>main\<close>, nothing is written, and the
  frames that follow are never read.
\<close>

theorem malformed_payload_is_not_caught:
  assumes "length payload < 2 ^ 32" and "json_loads env payload = Inl exc" and "\<not> is_EOFError exc"
  shows "main_loop env rt (w\<lparr>stdin := frame payload @ rest\<rparr>) = (Uncaught exc, w\<lparr>stdin := rest\<rparr>)"
proof -
  have "loop_body env rt (w\<lparr>stdin := frame payload @ rest\<rparr>) = (Done (Uncaught exc), w\<lparr>stdin := rest\<rparr>)"
    by (simp add: loop_body_read [OF assms(1)] assms(2) assms(3))
  then show ?thesis
    by (rule main_loop_Done)
qed

theorem malformed_payload_is_not_caught_witness:
  "length [123 :: byte] < 2 ^ 32
   \<and> json_loads (example_env [] [] []) [123] = Inl (Exn JSONDecodeError ''Expecting value'')
   \<and> \<not> is_EOFError (Exn JSONDecodeError ''Expecting value'')
   \<and> main_loop (example_env [] [] []) example_runtime
        \<lparr>stdin = [0, 0, 0, 1, 123] @ frame (encoded shutdown_message), stdout = []\<rparr>
       = (Uncaught (Exn JSONDecodeError ''Expecting value''),
          \<lparr>stdin = frame (encoded shutdown_message), stdout = []\<rparr>)"
proof -
  have l: "json_loads (example_env [] [] []) [123] = Inl (Exn JSONDecodeError ''Expecting value'')"
    by (simp add: example_env_def loads_of_def)
  show ?thesis
    using malformed_payload_is_not_caught
      [where payload = "[123]" and env = "example_env [] [] []"
         and exc = "Exn JSONDecodeError ''Expecting value''" and rt = example_runtime
         and w = "\<lparr>stdin = [], stdout = []\<rparr>" and rest = "frame (encoded shutdown_message)"]
    by (simp add: l frame_single_brace)
qed

subsection \<open>Unsupported device\<close>

text \<open>
  Claim C2 says that a device other than \<^verbatim>\<open>"mps"\<close> gives a \<^verbatim>\<open>fatal\<close> message and exit
  status 1. The runtime is constructed before the \<^verbatim>\<open>try\<close> that reports start-up failures,
  so the \<^verbatim>\<open>RuntimeError\<close> of the constructor leaves \<^verbatim>\<open>main\<close>: at \<^verbatim>\<open>--device cpu\<close> the
  exception is not caught, the loop does not run and the status is 1, but nothing is
  written to the channel.
\<close>

theorem unsupported_device_no_fatal:
  "main env \<lparr>model_path = ''/model.nemo'', device = ''cpu''\<rparr> w
     = (Uncaught (Exn RuntimeError ''This build only supports the MPS backend''), w)
   \<and> exit_status (fst (main env \<lparr>model_path = ''/model.nemo'', device = ''cpu''\<rparr> w)) = 1
   \<and> stdout (snd (main env \<lparr>model_path = ''/model.nemo'', device = ''cpu''\<rparr> w)) = stdout w"
  by (simp add: main_unsupported_device)

subsection \<open>Framing round trip\<close>




subsection \<open>Truncation\<close>

text \<open>
  Claim C4 (truncation safety). Whatever the stream holds, if it closes with fewer than 4
  header bytes, or with fewer payload bytes than the header announces, \<^verbatim>\<open>read_message\<close>
  raises \<^verbatim>\<open>EOFError\<close> whatever the JSON parser would do, so no message is decoded from the
  part that arrived; the loop then ends, \<^verbatim>\<open>main\<close> returns 0 and nothing more is written.
\<close>

theorem truncated_input_ends_the_loop:
  assumes "length (stdin w) < 4 \<or> length (stdin w) - 4 < from_bytes_big (take 4 (stdin w))"
  shows "fst (read_message env w) = Inl (Exn EOFError [])
       \<and> fst (main_loop env rt w) = Exit 0
       \<and> stdout (snd (main_loop env rt w)) = stdout w"
  using assms
  by (simp add: read_message_truncated main_loop_Done [OF loop_body_truncated] read_message_stdout)

theorem truncated_input_ends_the_loop_witness:
  "(length (stdin \<lparr>stdin = [0, 0, 0, 5, 123, 125], stdout = [1]\<rparr>) < 4
      \<or> length (stdin \<lparr>stdin = [0, 0, 0, 5, 123, 125], stdout = [1]\<rparr>) - 4
          < from_bytes_big (take 4 (stdin \<lparr>stdin = [0, 0, 0, 5, 123, 125], stdout = [1]\<rparr>)))
   \<and> fst (read_message (example_env [] [] []) \<lparr>stdin = [0, 0, 0, 5, 123, 125], stdout = [1]\<rparr>)
       = Inl (Exn EOFError [])
   \<and> fst (main_loop (example_env [] [] []) example_runtime \<lparr>stdin = [0, 0, 0, 5, 123, 125], stdout = [1]\<rparr>)
       = Exit 0
   \<and> stdout (snd (main_loop (example_env [] [] []) example_runtime
         \<lparr>stdin = [0, 0, 0, 5, 123, 125], stdout = [1]\<rparr>)) = [1]"
  using truncated_input_ends_the_loop
    [of "\<lparr>stdin = [0, 0, 0, 5, 123, 125], stdout = [1]\<rparr>" "example_env [] [] []" example_runtime]
  by (simp add: from_bytes_big_def)

subsection \<open>Unknown commands\<close>

text \<open>
  Claim C5, amended. A message whose command is neither \<^verbatim>\<open>"transcribe"\<close> nor
  \<^verbatim>\<open>"shutdown"\<close> is answered with exactly one error message, of text \<^verbatim>\<open>Unknown command\<close>
  followed by the tag as the f-string renders it (a string tag as it is), and the loop
  goes on with the rest of the input and the same runtime, provided the encoded reply is
  shorter than \<open>2 ^ 32\<close> bytes, which is what a frame header can announce.
\<close>

theorem unknown_command_gets_error_reply:
  assumes "length payload < 2 ^ 32" and "json_loads env payload = Inr message"
    and "py_get message ''command'' = Inr command"
    and "command \<noteq> JStr ''transcribe''" and "command \<noteq> JStr ''shutdown''"
    and "length (encoded (error_message (''Unknown command '' @ py_str env command))) < 2 ^ 32"
  shows "main_loop env rt (w\<lparr>stdin := frame payload @ rest\<rparr>) =
         main_loop env rt
           (w\<lparr>stdin := rest,
              stdout := stdout w
                @ frame (encoded (error_message (''Unknown command '' @ py_str env command)))\<rparr>)
       \<and> (command = JStr tag \<longrightarrow> py_str env command = tag)"
proof -
  have "loop_body env rt (w\<lparr>stdin := frame payload @ rest\<rparr>) =
        (Continue, w\<lparr>stdin := rest,
              stdout := stdout w
                @ frame (encoded (error_message (''Unknown command '' @ py_str env command)))\<rparr>)"
    using write_message_frame [OF assms(6), of "w\<lparr>stdin := rest\<rparr>"]
    by (simp add: loop_body_read [OF assms(1)] assms(2) assms(3) assms(4) assms(5))
  then have "main_loop env rt (w\<lparr>stdin := frame payload @ rest\<rparr>) =
         main_loop env rt
           (w\<lparr>stdin := rest,
              stdout := stdout w
                @ frame (encoded (error_message (''Unknown command '' @ py_str env command)))\<rparr>)"
    by (rule main_loop_Continue)
  then show ?thesis
    by auto
qed

theorem unknown_command_gets_error_reply_witness:
  "length (encoded (JObj [(''command'', JStr ''frobnicate'')])) < 2 ^ 32
   \<and> json_loads (example_env [JObj [(''command'', JStr ''frobnicate'')]] [] [])
         (encoded (JObj [(''command'', JStr ''frobnicate'')]))
       = Inr (JObj [(''command'', JStr ''frobnicate'')])
   \<and> py_get (JObj [(''command'', JStr ''frobnicate'')]) ''command'' = Inr (JStr ''frobnicate'')
   \<and> JStr ''frobnicate'' \<noteq> JStr ''transcribe'' \<and> JStr ''frobnicate'' \<noteq> JStr ''shutdown''
   \<and> length (encoded (error_message (''Unknown command ''
         @ py_str (example_env [JObj [(''command'', JStr ''frobnicate'')]] [] []) (JStr ''frobnicate''))))
       < 2 ^ 32
   \<and> main_loop (example_env [JObj [(''command'', JStr ''frobnicate'')]] [] []) example_runtime
        \<lparr>stdin = frame (encoded (JObj [(''command'', JStr ''frobnicate'')])), stdout = []\<rparr>
       = (Exit 0, \<lparr>stdin = [], stdout = frame (encoded (error_message ''Unknown command frobnicate''))\<rparr>)"
proof -
  let ?M = "JObj [(''command'', JStr ''frobnicate'')]"
  let ?E = "example_env [?M] [] []"
  have 1: "length (encoded ?M) < 2 ^ 32"
    by (simp add: eval_encoded)
  have 2: "json_loads ?E (encoded ?M) = Inr ?M"
    by (simp add: example_env_def loads_of_def)
  have 3: "py_get ?M ''command'' = Inr (JStr ''frobnicate'')"
    by simp
  have 4: "JStr ''frobnicate'' \<noteq> JStr ''transcribe''" and 5: "JStr ''frobnicate'' \<noteq> JStr ''shutdown''"
    by simp_all
  have 6: "length (encoded (error_message (''Unknown command '' @ py_str ?E (JStr ''frobnicate'')))) < 2 ^ 32"
    by (simp add: eval_encoded error_message_def)
  show ?thesis
    using unknown_command_gets_error_reply
      [OF 1 2 3 4 5 6, where rt = example_runtime and w = "\<lparr>stdin = [], stdout = []\<rparr>"
         and rest = "[]" and tag = "''frobnicate''"]
      1 2 6
    by (simp add: main_loop_eof)
qed

text \<open>
  Claim C5 as stated fails: a request of \<open>2 ^ 32 - 9\<close> bytes whose tag is \<open>2 ^ 32 - 24\<close>
  letters is a well-formed frame, but the error message for it would take \<open>2 ^ 32 + 22\<close>
  bytes; \<^verbatim>\<open>to_bytes(4, "big")\<close> raises \<^verbatim>\<open>OverflowError\<close> outside any \<^verbatim>\<open>try\<close>, no reply is
  written and the worker ends.
\<close>

theorem unknown_command_reply_too_long:
  "main_loop (example_env [JObj [(''command'', JStr (replicate (2 ^ 32 - 24) CHR ''a''))]] [] [])
     example_runtime
     \<lparr>stdin = frame (encoded (JObj [(''command'', JStr (replicate (2 ^ 32 - 24) CHR ''a''))])),
        stdout = []\<rparr>
   = (Uncaught (Exn OverflowError ''int too big to convert''), \<lparr>stdin = [], stdout = []\<rparr>)"
proof -
  define n :: nat where "n = 2 ^ 32 - 24"
  define tag where "tag = replicate n CHR ''a''"
  define req where "req = JObj [(''command'', JStr tag)]"
  define E where "E = example_env [req] [] []"
  have n1: "n + 15 < 2 ^ 32" and n2: "2 ^ 32 \<le> n + 46"
    by (simp_all add: n_def)
  have len: "length (encoded req) < 2 ^ 32"
    using n1 by (simp add: req_def tag_def length_encoded_long_command)
  have loads: "json_loads E (encoded req) = Inr req"
    by (simp add: E_def example_env_def loads_of_def)
  have get: "py_get req ''command'' = Inr (JStr tag)"
    by (simp add: req_def)
  have "length tag = n"
    by (simp add: tag_def)
  then have "length tag \<noteq> length ''shutdown''" and "length tag \<noteq> length ''transcribe''"
    by (simp_all add: n_def)
  then have ne: "tag \<noteq> ''shutdown''" "tag \<noteq> ''transcribe''"
    by blast+
  have "2 ^ 32 \<le> length (encoded (error_message (''Unknown command '' @ tag)))"
    using n2 by (simp only: tag_def length_encoded_long_unknown)
  then have ov: "write_message (error_message (''Unknown command '' @ tag)) \<lparr>stdin = [], stdout = []\<rparr>
       = Inl (Exn OverflowError ''int too big to convert'')"
    by (rule write_message_overflow)
  have "loop_body E example_runtime (\<lparr>stdin = [], stdout = []\<rparr>\<lparr>stdin := frame (encoded req) @ []\<rparr>)
       = (Done (Uncaught (Exn OverflowError ''int too big to convert'')), \<lparr>stdin = [], stdout = []\<rparr>)"
    using ov loop_body_read [OF len, where env = E and rt = example_runtime
        and w = "\<lparr>stdin = [], stdout = []\<rparr>" and rest = "[]"]
    by (simp add: loads get ne)
  then have "main_loop E example_runtime (\<lparr>stdin = [], stdout = []\<rparr>\<lparr>stdin := frame (encoded req) @ []\<rparr>)
       = (Uncaught (Exn OverflowError ''int too big to convert''), \<lparr>stdin = [], stdout = []\<rparr>)"
    by (rule main_loop_Done)
  then show ?thesis
    by (simp add: E_def req_def tag_def n_def)
qed

subsection \<open>Error isolation\<close>

text \<open>
  Claim C6 (error isolation), amended. When the body of the \<^verbatim>\<open>try\<close> of a transcribe request
  raises (the path is missing or not a string, the file cannot be read, its size is odd,
  the inference capability raises, its output has no text, or the result does not fit a
  frame), the worker writes exactly one error message, with the text of the exception, and
  the loop goes on with the rest of the input and the same runtime, provided the encoded
  error message is shorter than \<open>2 ^ 32\<close> bytes.
\<close>

theorem failed_transcription_is_isolated:
  assumes "length payload < 2 ^ 32" and "json_loads env payload = Inr message"
    and "py_get message ''command'' = Inr (JStr ''transcribe'')"
    and "transcribe_body env rt message (w\<lparr>stdin := rest\<rparr>) = Inl exc"
    and "length (encoded (error_message (str_exn exc))) < 2 ^ 32"
  shows "main_loop env rt (w\<lparr>stdin := frame payload @ rest\<rparr>) =
         main_loop env rt
           (w\<lparr>stdin := rest, stdout := stdout w @ frame (encoded (error_message (str_exn exc)))\<rparr>)"
proof -
  have "handle_transcribe env rt message (w\<lparr>stdin := rest\<rparr>) =
        Inr (w\<lparr>stdin := rest, stdout := stdout w @ frame (encoded (error_message (str_exn exc)))\<rparr>)"
    by (simp add: handle_transcribe_def assms(4) write_message_frame [OF assms(5)])
  then have "loop_body env rt (w\<lparr>stdin := frame payload @ rest\<rparr>) =
        (Continue, w\<lparr>stdin := rest,
              stdout := stdout w @ frame (encoded (error_message (str_exn exc)))\<rparr>)"
    by (simp add: loop_body_read [OF assms(1)] assms(2) assms(3))
  then show ?thesis
    by (rule main_loop_Continue)
qed

theorem failed_transcription_is_isolated_witness:
  "length (encoded (transcribe_request ''/missing.pcm'')) < 2 ^ 32
   \<and> json_loads
         (example_env [transcribe_request ''/missing.pcm'', transcribe_request ''/ok.pcm'']
            [(''/ok.pcm'', [0, 0])] ''hello'')
         (encoded (transcribe_request ''/missing.pcm''))
       = Inr (transcribe_request ''/missing.pcm'')
   \<and> py_get (transcribe_request ''/missing.pcm'') ''command'' = Inr (JStr ''transcribe'')
   \<and> transcribe_body
         (example_env [transcribe_request ''/missing.pcm'', transcribe_request ''/ok.pcm'']
            [(''/ok.pcm'', [0, 0])] ''hello'')
         example_runtime (transcribe_request ''/missing.pcm'')
         \<lparr>stdin = frame (encoded (transcribe_request ''/ok.pcm'')), stdout = []\<rparr>
       = Inl (no_such_file ''/missing.pcm'')
   \<and> length (encoded (error_message (str_exn (no_such_file ''/missing.pcm'')))) < 2 ^ 32
   \<and> main_loop
         (example_env [transcribe_request ''/missing.pcm'', transcribe_request ''/ok.pcm'']
            [(''/ok.pcm'', [0, 0])] ''hello'')
         example_runtime
         \<lparr>stdin = frame (encoded (transcribe_request ''/missing.pcm''))
                    @ frame (encoded (transcribe_request ''/ok.pcm'')),
            stdout = []\<rparr>
       = (Exit 0,
          \<lparr>stdin = [],
             stdout = frame (encoded (error_message (str_exn (no_such_file ''/missing.pcm''))))
                      @ frame (encoded (result_message (JStr ''hello'')))\<rparr>)"
proof -
  let ?bad = "transcribe_request ''/missing.pcm''"
  let ?good = "transcribe_request ''/ok.pcm''"
  let ?E = "example_env [?bad, ?good] [(''/ok.pcm'', [0, 0])] ''hello''"
  let ?err = "frame (encoded (error_message (str_exn (no_such_file ''/missing.pcm''))))"
  have 1: "length (encoded ?bad) < 2 ^ 32"
    by (simp add: eval_encoded transcribe_request_def)
  have 2: "json_loads ?E (encoded ?bad) = Inr ?bad"
    by (simp add: example_env_def loads_of_def)
  have 3: "py_get (transcribe_request q) ''command'' = Inr (JStr ''transcribe'')" for q
    by (simp add: transcribe_request_def)
  have 4: "transcribe_body ?E example_runtime ?bad u = Inl (no_such_file ''/missing.pcm'')" for u
    by (simp add: transcribe_body_def transcribe_request_def transcribe_def example_runtime_def
          example_env_def files_of_def)
  have 5: "length (encoded (error_message (str_exn (no_such_file ''/missing.pcm'')))) < 2 ^ 32"
    by (simp add: eval_encoded error_message_def no_such_file_def)
  have 6: "length (encoded ?good) < 2 ^ 32"
    by (simp add: eval_encoded transcribe_request_def)
  have "encoded ?bad \<noteq> encoded ?good"
    by (simp add: eval_encoded transcribe_request_def)
  then have 7: "json_loads ?E (encoded ?good) = Inr ?good"
    by (simp add: example_env_def loads_of_def)
  have 8: "length (encoded (result_message (JStr ''hello''))) < 2 ^ 32"
    by (simp add: eval_encoded result_message_def)
  have 9: "transcribe_body ?E example_runtime ?good u
           = Inr (u\<lparr>stdout := stdout u @ frame (encoded (result_message (JStr ''hello'')))\<rparr>)" for u
    by (simp add: transcribe_body_def transcribe_request_def transcribe_def example_runtime_def
          example_env_def files_of_def frombuffer_int16_def extract_text_def
          write_message_frame [OF 8])
  have second: "main_loop ?E example_runtime (\<lparr>stdin = [], stdout = ?err\<rparr>\<lparr>stdin := frame (encoded ?good) @ []\<rparr>)
           = (Exit 0, \<lparr>stdin = [], stdout = ?err @ frame (encoded (result_message (JStr ''hello'')))\<rparr>)"
    using transcribe_request_served
      [OF 6 7 3 9, where w = "\<lparr>stdin = [], stdout = ?err\<rparr>" and rest = "[]"]
    by (simp add: main_loop_eof)
  show ?thesis
    using failed_transcription_is_isolated
      [OF 1 2 3 4 5, where w = "\<lparr>stdin = [], stdout = []\<rparr>"
         and rest = "frame (encoded ?good)"]
      1 2 3 [of "''/missing.pcm''"] 4 5 second
    by simp
qed

text \<open>
  Claim C6 as stated fails: a transcribe request of \<open>2 ^ 32 - 13\<close> bytes names a path of
  \<open>2 ^ 32 - 50\<close> letters; reading the file fails with an exception whose text repeats the
  path, the error message for it would take \<open>2 ^ 32 + 19\<close> bytes, and the
  \<^verbatim>\<open>OverflowError\<close> of \<^verbatim>\<open>to_bytes(4, "big")\<close>, raised inside the \<^verbatim>\<open>except\<close> handler, ends the
  worker without a reply.
\<close>

theorem failed_transcription_reply_too_long:
  "main_loop (example_env [transcribe_request (replicate (2 ^ 32 - 50) CHR ''a'')] [] ''hello'')
     example_runtime
     \<lparr>stdin = frame (encoded (transcribe_request (replicate (2 ^ 32 - 50) CHR ''a''))), stdout = []\<rparr>
   = (Uncaught (Exn OverflowError ''int too big to convert''), \<lparr>stdin = [], stdout = []\<rparr>)"
proof -
  define n :: nat where "n = 2 ^ 32 - 50"
  define path where "path = replicate n CHR ''a''"
  define req where "req = transcribe_request path"
  define E where "E = example_env [req] [] ''hello''"
  have n1: "n + 37 < 2 ^ 32" and n2: "2 ^ 32 \<le> n + 69"
    by (simp_all add: n_def)
  have len: "length (encoded req) < 2 ^ 32"
    using n1 by (simp add: req_def path_def length_encoded_long_path)
  have loads: "json_loads E (encoded req) = Inr req"
    by (simp add: E_def example_env_def loads_of_def)
  have get: "py_get req ''command'' = Inr (JStr ''transcribe'')"
    by (simp add: req_def transcribe_request_def)
  have body: "transcribe_body E example_runtime req u = Inl (no_such_file path)" for u
    by (simp add: transcribe_body_def req_def transcribe_request_def transcribe_def
          example_runtime_def E_def example_env_def files_of_def)
  have "2 ^ 32 \<le> length (encoded (error_message (str_exn (no_such_file path))))"
    using n2 by (simp only: path_def length_encoded_long_error)
  then have "write_message (error_message (str_exn (no_such_file path))) u
       = Inl (Exn OverflowError ''int too big to convert'')" for u
    by (rule write_message_overflow)
  then have ht: "handle_transcribe E example_runtime req u
       = Inl (Exn OverflowError ''int too big to convert'')" for u
    by (simp add: handle_transcribe_def body)
  have "loop_body E example_runtime (\<lparr>stdin = [], stdout = []\<rparr>\<lparr>stdin := frame (encoded req) @ []\<rparr>)
       = (Done (Uncaught (Exn OverflowError ''int too big to convert'')), \<lparr>stdin = [], stdout = []\<rparr>)"
    using loop_body_read [OF len, where env = E and rt = example_runtime
        and w = "\<lparr>stdin = [], stdout = []\<rparr>" and rest = "[]"]
    by (simp add: loads get ht)
  then have "main_loop E example_runtime (\<lparr>stdin = [], stdout = []\<rparr>\<lparr>stdin := frame (encoded req) @ []\<rparr>)
       = (Uncaught (Exn OverflowError ''int too big to convert''), \<lparr>stdin = [], stdout = []\<rparr>)"
    by (rule main_loop_Done)
  then show ?thesis
    by (simp add: E_def req_def path_def n_def)
qed

subsection \<open>State gating\<close>

text \<open>
  Claim C7 (state gating). While the model is not loaded, \<^verbatim>\<open>transcribe\<close> raises
  \<^verbatim>\<open>RuntimeError("Model not loaded")\<close>; the transcribe branch of the loop answers with one
  error message, which carries that text when the request has a string path; and the
  answer is the same whatever the file system and the inference capability would do, so
  neither is reached.
\<close>

theorem transcribe_needs_model:
  assumes "model rt = None"
  shows "transcribe env rt p = Inl (Exn RuntimeError ''Model not loaded'')
       \<and> (\<exists>e. handle_transcribe env rt message w = write_message (error_message e) w)
       \<and> (py_getitem message ''path'' = Inr (JStr p) \<longrightarrow>
            handle_transcribe env rt message w = write_message (error_message ''Model not loaded'') w)
       \<and> handle_transcribe (env\<lparr>read_bytes := f, generate := g\<rparr>) rt message w
            = handle_transcribe env rt message w"
proof -
  have t: "transcribe e rt q = Inl (Exn RuntimeError ''Model not loaded'')" for e :: "'a env" and q
    using assms by (simp add: transcribe_def)
  have body: "\<exists>x. transcribe_body e rt message w = Inl x" for e :: "'a env"
    by (auto simp: transcribe_body_def t split: sum.splits)
  have 2: "\<exists>e. handle_transcribe env rt message w = write_message (error_message e) w"
    using body [of env] by (auto simp: handle_transcribe_def)
  have 3: "py_getitem message ''path'' = Inr (JStr p) \<longrightarrow>
            handle_transcribe env rt message w = write_message (error_message ''Model not loaded'') w"
    by (simp add: handle_transcribe_def transcribe_body_def t)
  have path_env: "Path (env\<lparr>read_bytes := f, generate := g\<rparr>) v = Path env v" for v
    by (cases v) simp_all
  have 4: "handle_transcribe (env\<lparr>read_bytes := f, generate := g\<rparr>) rt message w
            = handle_transcribe env rt message w"
    by (simp add: handle_transcribe_def transcribe_body_def t path_env split: sum.splits)
  from t 2 3 4 show ?thesis by blast
qed

theorem transcribe_needs_model_witness:
  "model \<lparr>config = \<lparr>model_path = ''/model.nemo'', device = ''mps''\<rparr>, model = (None :: unit option)\<rparr> = None
   \<and> transcribe (example_env [] [] ''hello'')
         \<lparr>config = \<lparr>model_path = ''/model.nemo'', device = ''mps''\<rparr>, model = None\<rparr> ''/a.pcm''
       = Inl (Exn RuntimeError ''Model not loaded'')
   \<and> py_getitem (JObj [(''command'', JStr ''transcribe''), (''path'', JStr ''/a.pcm'')]) ''path''
       = Inr (JStr ''/a.pcm'')
   \<and> handle_transcribe (example_env [] [] ''hello'')
         \<lparr>config = \<lparr>model_path = ''/model.nemo'', device = ''mps''\<rparr>, model = None\<rparr>
         (JObj [(''command'', JStr ''transcribe''), (''path'', JStr ''/a.pcm'')])
         \<lparr>stdin = [], stdout = []\<rparr>
       = write_message (error_message ''Model not loaded'') \<lparr>stdin = [], stdout = []\<rparr>
   \<and> handle_transcribe
         ((example_env [] [] ''hello'')
            \<lparr>read_bytes := (\<lambda>p. Inr [0, 0]), generate := (\<lambda>m audio n. Inr (GenOther ''x''))\<rparr>)
         \<lparr>config = \<lparr>model_path = ''/model.nemo'', device = ''mps''\<rparr>, model = None\<rparr>
         (JObj [(''command'', JStr ''transcribe''), (''path'', JStr ''/a.pcm'')])
         \<lparr>stdin = [], stdout = []\<rparr>
       = handle_transcribe (example_env [] [] ''hello'')
         \<lparr>config = \<lparr>model_path = ''/model.nemo'', device = ''mps''\<rparr>, model = None\<rparr>
         (JObj [(''command'', JStr ''transcribe''), (''path'', JStr ''/a.pcm'')])
         \<lparr>stdin = [], stdout = []\<rparr>"
  using transcribe_needs_model
    [where rt = "\<lparr>config = \<lparr>model_path = ''/model.nemo'', device = ''mps''\<rparr>, model = None\<rparr>"
       and env = "example_env [] [] ''hello''" and p = "''/a.pcm''"
       and message = "JObj [(''command'', JStr ''transcribe''), (''path'', JStr ''/a.pcm'')]"
       and w = "\<lparr>stdin = [], stdout = []\<rparr>" and f = "\<lambda>p. Inr [0, 0]"
       and g = "\<lambda>m audio n. Inr (GenOther ''x'')"]
  by simp

subsection \<open>Load once\<close>

text \<open>
  Claim C8 (load-once). A second \<^verbatim>\<open>load\<close> leaves the runtime as the first one left it;
  a first \<^verbatim>\<open>load\<close> that returned has set the model; and once the model is set, \<^verbatim>\<open>load\<close>
  returns at once without changing anything, in any environment, so the model is never
  restored again.
\<close>

theorem load_twice:
  "snd (load env (snd (load env rt))) = snd (load env rt)
   \<and> (fst (load env rt) = None \<longrightarrow> model (snd (load env rt)) \<noteq> None)
   \<and> (model (snd (load env rt)) \<noteq> None \<longrightarrow>
        load env2 (snd (load env rt)) = (None, snd (load env rt)))"
  by (auto simp: load_def split: option.splits sum.splits prod.splits)

theorem load_twice_witness:
  "fst (load (example_env [] [] ''hello'')
         \<lparr>config = \<lparr>model_path = ''/model.nemo'', device = ''mps''\<rparr>, model = None\<rparr>) = None
   \<and> model (snd (load (example_env [] [] ''hello'')
         \<lparr>config = \<lparr>model_path = ''/model.nemo'', device = ''mps''\<rparr>, model = None\<rparr>)) = Some ()
   \<and> load ((example_env [] [] ''hello'')\<lparr>restore_from := (\<lambda>ckpt dev. Inl (Exn OSError ''gone''))\<rparr>)
         (snd (load (example_env [] [] ''hello'')
           \<lparr>config = \<lparr>model_path = ''/model.nemo'', device = ''mps''\<rparr>, model = None\<rparr>))
       = (None, example_runtime)
   \<and> snd (load (example_env [] [] ''hello'') example_runtime) = example_runtime"
proof -
  let ?E = "example_env [] [] ''hello''"
  let ?R = "\<lparr>config = \<lparr>model_path = ''/model.nemo'', device = ''mps''\<rparr>, model = (None :: unit option)\<rparr>"
  have l: "load ?E ?R = (None, example_runtime)"
    by (simp add: load_def example_env_def example_runtime_def)
  show ?thesis
    using load_twice [of ?E ?R "?E\<lparr>restore_from := (\<lambda>ckpt dev. Inl (Exn OSError ''gone''))\<rparr>"]
    by (simp add: l)
qed

subsection \<open>Sample normalisation\<close>

text \<open>
  Claim C9 (sample normalisation). When the model is loaded and the file holds an even
  number of bytes, what \<^verbatim>\<open>transcribe\<close> passes to the inference capability is the list of
  its 16-bit samples, each divided by 32768, and each of these values lies in
  \<open>[-1, 1]\<close>.
\<close>

theorem samples_are_normalized:
  assumes "model rt = Some m" and "read_bytes env p = Inr buf" and "frombuffer_int16 buf = Inr samples"
  shows "transcribe env rt p =
           (case generate env m (map normalize samples) (length samples) of
              Inl e \<Rightarrow> Inl e
            | Inr output \<Rightarrow> extract_text output)
       \<and> (\<forall>s \<in> set samples. normalize s = real_of_int (sint s) / 32768
             \<and> - 1 \<le> normalize s \<and> normalize s \<le> 1)"
proof -
  have "transcribe env rt p =
           (case generate env m (map normalize samples) (length samples) of
              Inl e \<Rightarrow> Inl e
            | Inr output \<Rightarrow> extract_text output)"
    using assms by (simp add: transcribe_def)
  moreover have "\<forall>s \<in> set samples. normalize s = real_of_int (sint s) / 32768
             \<and> - 1 \<le> normalize s \<and> normalize s \<le> 1"
    using normalize_range by (auto simp: normalize_def less_imp_le)
  ultimately show ?thesis by blast
qed

theorem samples_are_normalized_witness:
  "model example_runtime = Some ()
   \<and> read_bytes (example_env [] [(''/a.pcm'', [0, 128, 255, 127])] ''hello'') ''/a.pcm''
       = Inr [0, 128, 255, 127]
   \<and> frombuffer_int16 [0, 128, 255, 127] = Inr [0x8000, 0x7FFF]
   \<and> transcribe (example_env [] [(''/a.pcm'', [0, 128, 255, 127])] ''hello'') example_runtime ''/a.pcm''
       = Inr (JStr ''hello'')
   \<and> normalize 0x8000 = - 1 \<and> normalize 0x7FFF = 32767 / 32768"
proof -
  let ?E = "example_env [] [(''/a.pcm'', [0, 128, 255, 127])] ''hello''"
  have 1: "model example_runtime = Some ()"
    by (simp add: example_runtime_def)
  have 2: "read_bytes ?E ''/a.pcm'' = Inr [0, 128, 255, 127]"
    by (simp add: example_env_def files_of_def)
  have 3: "frombuffer_int16 [0, 128, 255, 127] = Inr [0x8000, 0x7FFF]"
    by (simp add: frombuffer_int16_def)
  have 4: "generate ?E () audio n = Inr (GenList [[(''text'', JStr ''hello'')]])" for audio n
    by (simp add: example_env_def)
  show ?thesis
    using samples_are_normalized [OF 1 2 3]
    by (simp add: 1 2 3 4 extract_text_def)
qed

subsection \<open>Missing command\<close>

text \<open>
  Claim C10. A payload that decodes to a dict without a \<^verbatim>\<open>"command"\<close> key does not make the
  worker fail: \<^verbatim>\<open>get\<close> returns \<^verbatim>\<open>None\<close>, the reply is the one error message with the text
  \<^verbatim>\<open>Unknown command None\<close>, and the loop goes on with the rest of the input and the same
  runtime.
\<close>

theorem missing_command_is_unknown_command_None:
  assumes "length payload < 2 ^ 32" and "json_loads env payload = Inr (JObj kvs)"
    and "map_of kvs ''command'' = None"
  shows "main_loop env rt (w\<lparr>stdin := frame payload @ rest\<rparr>) =
         main_loop env rt
           (w\<lparr>stdin := rest,
              stdout := stdout w @ frame (encoded (error_message ''Unknown command None''))\<rparr>)"
proof -
  have "loop_body env rt (w\<lparr>stdin := frame payload @ rest\<rparr>) =
        (Continue, w\<lparr>stdin := rest,
              stdout := stdout w @ frame (encoded (error_message ''Unknown command None''))\<rparr>)"
    by (simp add: loop_body_read [OF assms(1)] assms(2) assms(3) write_message_frame
          length_encoded_unknown_None)
  then show ?thesis
    by (rule main_loop_Continue)
qed

theorem missing_command_is_unknown_command_None_witness:
  "length (encoded (JObj [(''path'', JStr ''/a.pcm'')])) < 2 ^ 32
   \<and> json_loads (example_env [JObj [(''path'', JStr ''/a.pcm'')]] [] []) (encoded (JObj [(''path'', JStr ''/a.pcm'')]))
       = Inr (JObj [(''path'', JStr ''/a.pcm'')])
   \<and> map_of [(''path'', JStr ''/a.pcm'')] ''command'' = None
   \<and> main_loop (example_env [JObj [(''path'', JStr ''/a.pcm'')]] [] []) example_runtime
        \<lparr>stdin = frame (encoded (JObj [(''path'', JStr ''/a.pcm'')])), stdout = []\<rparr>
       = (Exit 0, \<lparr>stdin = [], stdout = frame (encoded (error_message ''Unknown command None''))\<rparr>)"
proof -
  let ?M = "JObj [(''path'', JStr ''/a.pcm'')]"
  let ?E = "example_env [?M] [] []"
  have 1: "length (encoded ?M) < 2 ^ 32"
    by (simp add: eval_encoded)
  have 2: "json_loads ?E (encoded ?M) = Inr ?M"
    by (simp add: example_env_def loads_of_def)
  have 3: "map_of [(''path'', JStr ''/a.pcm'')] ''command'' = None"
    by simp
  show ?thesis
    using missing_command_is_unknown_command_None
      [OF 1 2 3, where rt = example_runtime and w = "\<lparr>stdin = [], stdout = []\<rparr>" and rest = "[]"]
      1 2
    by (simp add: main_loop_eof)
qed

end
